theory Spec2Isabelle
  imports Main "HOL-Library.Sublist" "HOL-Library.Multiset"
begin

section \<open>Data model of \<^verbatim>\<open>bot.ts\<close>\<close>

text \<open>
  The bot keeps three collections in the document database (\<^verbatim>\<open>User\<close>, \<^verbatim>\<open>Chat\<close>,
  \<^verbatim>\<open>Message\<close>) and a session object per conversation partner. A document is a record
  with exactly the fields that \<^verbatim>\<open>bot.ts\<close> reads or writes; the generated \<^verbatim>\<open>_id\<close> is a
  natural number, and \<^verbatim>\<open>chat._id.toString()\<close> followed by \<^verbatim>\<open>Chat.findById\<close> is the
  identity on it. Timestamps are natural numbers.
\<close>

datatype role = RoleUser | RoleAssistant

record user_doc =
  user_oid :: nat
  telegramId :: int
  firstName :: string
  userName :: "string option"
  selectedModel :: string

record chat_doc =
  chat_oid :: nat
  chat_userId :: nat
  chat_createdAt :: nat
  updatedAt :: nat

record message_doc =
  message_oid :: nat
  msg_chatId :: nat
  msg_userId :: nat
  msg_role :: role
  content :: string
  createdAt :: nat

datatype ImageGenerationQuality = STANDARD | HD

text \<open>
  \<^verbatim>\<open>SessionData\<close>: \<^verbatim>\<open>chatId\<close> is optional (absent in the initial session, line 37),
  \<^verbatim>\<open>imageQuality\<close> starts as \<^verbatim>\<open>ImageGenerationQuality.STANDARD\<close>. The test \<^verbatim>\<open>!chatId\<close>
  of line 234 is \<open>chatId = None\<close>: the only strings ever stored are object identifiers,
  which are never empty.
\<close>

record SessionData =
  chatId :: "nat option"
  imageQuality :: ImageGenerationQuality

definition initial :: SessionData where
  "initial = \<lparr>chatId = None, imageQuality = STANDARD\<rparr>"

text \<open>
  The texts the bot sends are Russian string literals. Each distinct literal of
  \<^verbatim>\<open>bot.ts\<close> is one constructor, named after its meaning, with the line of its first
  use; \<open>Answer\<close> carries the completion text and \<open>QUALITY_CHOSEN\<close> the template of
  line 119.
\<close>

datatype reply_text =
    INVALID_MODEL                      \<comment> \<open>line 79\<close>
  | BEGIN_WITH_START                   \<comment> \<open>lines 87 and 173: please begin with /start\<close>
  | MODEL_SWITCHED string              \<comment> \<open>line 95, with the label of the model\<close>
  | MODEL_SAVE_ERROR                   \<comment> \<open>line 99\<close>
  | CANCELLED_TOAST                    \<comment> \<open>line 105, the callback answer\<close>
  | IMAGE_GENERATION_CANCELLED         \<comment> \<open>line 107\<close>
  | SOMETHING_WENT_WRONG               \<comment> \<open>line 114\<close>
  | QUALITY_CHOSEN string              \<comment> \<open>line 119\<close>
  | START_MESSAGE                      \<comment> \<open>line 128\<close>
  | CREATING_BOT                       \<comment> \<open>line 136\<close>
  | BOT_CREATED                        \<comment> \<open>line 144\<close>
  | ENTER_REQUEST                      \<comment> \<open>line 147\<close>
  | START_ERROR                        \<comment> \<open>line 157\<close>
  | HELP_MESSAGE                       \<comment> \<open>line 163\<close>
  | NEW_CHAT_CREATED                   \<comment> \<open>line 183\<close>
  | NEWCHAT_ERROR                      \<comment> \<open>line 186\<close>
  | CHOOSE_QUALITY                     \<comment> \<open>line 203, sent with the quality keyboard\<close>
  | LOADING                            \<comment> \<open>line 223, the placeholder\<close>
  | USER_NOT_FOUND_PLEASE_START        \<comment> \<open>line 229: user not found, please /start\<close>
  | PLEASE_START                       \<comment> \<open>line 244: please begin a new chat with /start\<close>
  | CHAT_NOT_FOUND_PLEASE_START        \<comment> \<open>line 253: chat not found, please /start\<close>
  | GENERATION_FAILED                  \<comment> \<open>line 279: error while generating the answer\<close>
  | PROCESSING_ERROR                   \<comment> \<open>line 297: error while processing the request\<close>
  | GENERIC_ERROR                      \<comment> \<open>line 318\<close>
  | Answer string                      \<comment> \<open>line 294: the completion itself\<close>
  | IMAGE_PROMPT_REQUEST               \<comment> \<open>the image dialog asks for a description\<close>
  | IMAGE_DELIVERED                    \<comment> \<open>the image dialog delivers the picture\<close>
  | IMAGE_FAILED                       \<comment> \<open>the image dialog reports a failure\<close>

text \<open>
  Everything a handler does to the outside world is recorded, in order, as an event:
  \<open>Reply mid t\<close> is \<^verbatim>\<open>ctx.reply\<close> sending a new message that the platform numbers
  \<open>mid\<close>; \<open>EditText mid t\<close> is \<^verbatim>\<open>editText\<close> on message \<open>mid\<close>.
\<close>

datatype event =
    Reply nat reply_text
  | EditText nat reply_text
  | AnswerCallbackQuery "reply_text option"
  | ConversationEnter
  | ConversationExit
  | CompletionRequest "message_doc list" int string
  | ImageRequest string ImageGenerationQuality
  | LogError nat

record world =
  users :: "user_doc list"
  chats :: "chat_doc list"
  messages :: "message_doc list"
  session :: SessionData
  awaiting_prompt :: bool
  trace :: "event list"
  next_oid :: nat
  next_message_id :: nat

text \<open>
  The collaborators of one handler run. \<open>throws l\<close>: the awaited call on line \<open>l\<close> of
  \<^verbatim>\<open>bot.ts\<close> rejects (it then has no effect). \<open>clock l\<close>: the time read by the call on
  line \<open>l\<close>. \<open>answerWithChatGPT\<close> is the completion requester of \<^verbatim>\<open>src/utils/gpt\<close>,
  whose result is a string or absent; \<open>generateImage\<close> tells whether the image API
  delivers.
\<close>

record env =
  throws :: "nat \<Rightarrow> bool"
  clock :: "nat \<Rightarrow> nat"
  answerWithChatGPT :: "message_doc list \<Rightarrow> int \<Rightarrow> string \<Rightarrow> string option"
  generateImage :: "string \<Rightarrow> ImageGenerationQuality \<Rightarrow> bool"

text \<open>
  The constants and tables that \<^verbatim>\<open>bot.ts\<close> imports: the history window of
  \<^verbatim>\<open>src/utils/consts\<close>, the model table of \<^verbatim>\<open>src/types/types\<close>, the schema default of
  \<^verbatim>\<open>selectedModel\<close>, and the environment variable read by \<^verbatim>\<open>/image\<close>.
\<close>

record config =
  MAX_HISTORY_LENGTH :: int
  AiModelsLabels :: "(string \<times> string) list"
  DEFAULT_MODEL :: string
  IMAGE_QUALITY_CHANGE_AVAILABLE :: "string option"

section \<open>Awaited calls, exceptions and early returns\<close>

datatype 'a outcome = Returned 'a | Thrown

type_synonym 'a action = "world \<Rightarrow> 'a outcome \<times> world"

definition return :: "'a \<Rightarrow> 'a action" where
  "return a w = (Returned a, w)"

definition and_then :: "'a action \<Rightarrow> ('a \<Rightarrow> 'b action) \<Rightarrow> 'b action" where
  "and_then m f w = (case m w of (Returned a, w') \<Rightarrow> f a w' | (Thrown, w') \<Rightarrow> (Thrown, w'))"

definition await :: "env \<Rightarrow> nat \<Rightarrow> 'a action \<Rightarrow> 'a action" where
  "await e l m w = (if throws e l then (Thrown, w) else m w)"

definition try_catch :: "unit action \<Rightarrow> unit action \<Rightarrow> unit action" where
  "try_catch body handler w = (case body w of (Returned u, w') \<Rightarrow> (Returned u, w') | (Thrown, w') \<Rightarrow> handler w')"

definition emit :: "event \<Rightarrow> unit action" where
  "emit ev w = (Returned (), w\<lparr>trace := trace w @ [ev]\<rparr>)"

definition emitted :: "world \<Rightarrow> world \<Rightarrow> event list" where
  "emitted w w' = drop (length (trace w)) (trace w')"

subsection \<open>Platform calls\<close>

definition reply :: "reply_text \<Rightarrow> nat action" where
  "reply t w =
     (Returned (next_message_id w),
      w\<lparr>trace := trace w @ [Reply (next_message_id w) t], next_message_id := Suc (next_message_id w)\<rparr>)"

definition editText :: "nat \<Rightarrow> reply_text \<Rightarrow> unit action" where
  "editText mid t = emit (EditText mid t)"

definition logError :: "nat \<Rightarrow> unit action" where
  "logError l = emit (LogError l)"

subsection \<open>Database calls\<close>

definition User_findOne :: "int \<Rightarrow> user_doc option action" where
  "User_findOne tid w = (Returned (find (\<lambda>u. telegramId u = tid) (users w)), w)"

definition User_create :: "config \<Rightarrow> int \<Rightarrow> string \<Rightarrow> string option \<Rightarrow> user_doc action" where
  "User_create cfg tid first uname w =
     (let u = \<lparr>user_oid = next_oid w, telegramId = tid, firstName = first, userName = uname,
               selectedModel = DEFAULT_MODEL cfg\<rparr>
      in (Returned u, w\<lparr>users := users w @ [u], next_oid := Suc (next_oid w)\<rparr>))"

definition Chat_create :: "nat \<Rightarrow> nat \<Rightarrow> chat_doc action" where
  "Chat_create uid now w =
     (let c = \<lparr>chat_oid = next_oid w, chat_userId = uid, chat_createdAt = now, updatedAt = now\<rparr>
      in (Returned c, w\<lparr>chats := chats w @ [c], next_oid := Suc (next_oid w)\<rparr>))"

text \<open>\<^verbatim>\<open>Chat.findOne({ userId }).sort({ createdAt: -1 })\<close>: the newest chat of the user.\<close>

definition Chat_findLatest :: "nat \<Rightarrow> chat_doc option action" where
  "Chat_findLatest uid w =
     (Returned (case rev (sort_key chat_createdAt (filter (\<lambda>c. chat_userId c = uid) (chats w))) of
                  [] \<Rightarrow> None | c # _ \<Rightarrow> Some c), w)"

definition Chat_findById :: "nat \<Rightarrow> chat_doc option action" where
  "Chat_findById cid w = (Returned (find (\<lambda>c. chat_oid c = cid) (chats w)), w)"

definition Chat_save :: "chat_doc \<Rightarrow> unit action" where
  "Chat_save c w =
     (Returned (), w\<lparr>chats := map (\<lambda>d. if chat_oid d = chat_oid c then c else d) (chats w)\<rparr>)"

definition Message_create :: "nat \<Rightarrow> nat \<Rightarrow> role \<Rightarrow> string \<Rightarrow> nat \<Rightarrow> unit action" where
  "Message_create cid uid r utext now w =
     (let m = \<lparr>message_oid = next_oid w, msg_chatId = cid, msg_userId = uid, msg_role = r,
               content = utext, createdAt = now\<rparr>
      in (Returned (), w\<lparr>messages := messages w @ [m], next_oid := Suc (next_oid w)\<rparr>))"

text \<open>\<^verbatim>\<open>Message.find({ chatId }).sort({ createdAt: 1 }).lean()\<close>, lines 265 to 267.\<close>

definition find_sorted :: "nat \<Rightarrow> message_doc list \<Rightarrow> message_doc list" where
  "find_sorted cid ms = sort_key createdAt (filter (\<lambda>m. msg_chatId m = cid) ms)"

definition Message_find :: "nat \<Rightarrow> message_doc list action" where
  "Message_find cid w = (Returned (find_sorted cid (messages w)), w)"

section \<open>The history window\<close>

text \<open>
  \<^verbatim>\<open>Array.prototype.slice(start)\<close> with one argument: a negative \<open>start\<close> counts from the
  end and is clamped at the first element, a non-negative one is clamped at the length.
  Since \<^verbatim>\<open>-0\<close> is \<^verbatim>\<open>0\<close>, \<^verbatim>\<open>slice(-0)\<close> is the whole array.
\<close>

definition slice :: "int \<Rightarrow> 'a list \<Rightarrow> 'a list" where
  "slice start xs =
     (let len = int (length xs);
          k = (if start < 0 then max (len + start) 0 else min start len)
      in drop (nat k) xs)"

text \<open>Lines 265 to 269: what the handler hands to the completion requester.\<close>

definition history :: "config \<Rightarrow> nat \<Rightarrow> message_doc list \<Rightarrow> message_doc list" where
  "history cfg cid ms = slice (- MAX_HISTORY_LENGTH cfg) (find_sorted cid ms)"

section \<open>Session and dialog primitives\<close>

definition set_chatId :: "nat \<Rightarrow> unit action" where
  "set_chatId cid w = (Returned (), w\<lparr>session := (session w)\<lparr>chatId := Some cid\<rparr>\<rparr>)"

definition set_imageQuality :: "ImageGenerationQuality \<Rightarrow> unit action" where
  "set_imageQuality q w = (Returned (), w\<lparr>session := (session w)\<lparr>imageQuality := q\<rparr>\<rparr>)"

definition ignore :: "'a action \<Rightarrow> unit action" where
  "ignore m = and_then m (\<lambda>_. return ())"

text \<open>
  \<^verbatim>\<open>ctx.callbackQuery.message?.editText(t)\<close>: nothing happens when the callback carries
  no message.
\<close>

definition edit_callback_message :: "env \<Rightarrow> nat \<Rightarrow> nat option \<Rightarrow> reply_text \<Rightarrow> unit action" where
  "edit_callback_message e l cbmsg t =
     (case cbmsg of None \<Rightarrow> return () | Some mid \<Rightarrow> await e l (editText mid t))"

text \<open>
  Modelled from the spec: the values of the enumeration \<^verbatim>\<open>ImageGenerationQuality\<close> and the
  guard \<^verbatim>\<open>isValidImageGenerationQuality\<close> (\<^verbatim>\<open>src/types\<close>, not part of the sources). The
  spec names the identifiers "standard" and "hd" and describes the guard as membership
  in that finite set.
\<close>

fun quality_id :: "ImageGenerationQuality \<Rightarrow> string" where
  "quality_id STANDARD = ''standard''"
| "quality_id HD = ''hd''"

definition quality_of :: "string \<Rightarrow> ImageGenerationQuality option" where
  "quality_of d = find (\<lambda>q. quality_id q = d) [STANDARD, HD]"

definition isValidImageGenerationQuality :: "string \<Rightarrow> bool" where
  "isValidImageGenerationQuality d = (quality_of d \<noteq> None)"

text \<open>
  Modelled from the spec: the guard \<^verbatim>\<open>isValidAiModel\<close> (\<^verbatim>\<open>src/types/typeguards\<close>, not part
  of the sources), described as membership in the known model identifiers.
\<close>

definition isValidAiModel :: "config \<Rightarrow> string \<Rightarrow> bool" where
  "isValidAiModel cfg d = (d \<in> set (map fst (AiModelsLabels cfg)))"

definition model_label :: "config \<Rightarrow> string \<Rightarrow> string" where
  "model_label cfg d = (case map_of (AiModelsLabels cfg) d of None \<Rightarrow> ''undefined'' | Some l \<Rightarrow> l)"

definition User_save :: "user_doc \<Rightarrow> unit action" where
  "User_save u w =
     (Returned (), w\<lparr>users := map (\<lambda>d. if user_oid d = user_oid u then u else d) (users w)\<rparr>)"

text \<open>
  Modelled from the spec: the image dialog \<^verbatim>\<open>imageConversation\<close>
  (\<^verbatim>\<open>src/conversations/imageConversation\<close>, not part of the sources) and the way the
  conversations plug-in enters, leaves and resumes it. Entering asks for a description
  and suspends in state AwaitingPrompt; leaving drops that state; the next free-text
  message is the prompt, with which the image API is called once, with the quality
  stored in the session, and the dialog ends in Delivered or Failed.
\<close>

definition conversation_enter :: "unit action" where
  "conversation_enter =
     and_then (emit ConversationEnter)
       (\<lambda>_. and_then (ignore (reply IMAGE_PROMPT_REQUEST))
       (\<lambda>_ w. (Returned (), w\<lparr>awaiting_prompt := True\<rparr>)))"

definition conversation_exit :: "unit action" where
  "conversation_exit =
     and_then (emit ConversationExit) (\<lambda>_ w. (Returned (), w\<lparr>awaiting_prompt := False\<rparr>))"

definition imageConversation_resume :: "env \<Rightarrow> string \<Rightarrow> unit action" where
  "imageConversation_resume e prompt =
     (\<lambda>w. and_then (emit (ImageRequest prompt (imageQuality (session w))))
       (\<lambda>_. and_then
          (ignore (reply (if generateImage e prompt (imageQuality (session w))
                          then IMAGE_DELIVERED else IMAGE_FAILED)))
       (\<lambda>_ w'. (Returned (), w'\<lparr>awaiting_prompt := False\<rparr>))) w)"

section \<open>The handlers of \<^verbatim>\<open>bot.ts\<close>\<close>

record TelegramUser =
  tg_id :: int
  first_name :: string
  username :: "string option"

subsection \<open>Callback queries, lines 72 to 122\<close>

definition callbackQuery_model :: "config \<Rightarrow> env \<Rightarrow> TelegramUser \<Rightarrow> string \<Rightarrow> nat option \<Rightarrow> unit action" where
  "callbackQuery_model cfg e sender data cbmsg =
     and_then (await e 73 (emit (AnswerCallbackQuery None)))
       (\<lambda>_. if \<not> isValidAiModel cfg data
             then edit_callback_message e 78 cbmsg INVALID_MODEL
             else try_catch
               (and_then (await e 85 (User_findOne (tg_id sender)))
                  (\<lambda>user. case user of
                       None \<Rightarrow> ignore (await e 87 (reply BEGIN_WITH_START))
                     | Some u \<Rightarrow>
                         and_then (await e 92 (User_save (u\<lparr>selectedModel := data\<rparr>)))
                           (\<lambda>_. edit_callback_message e 94 cbmsg
                                   (MODEL_SWITCHED (model_label cfg data)))))
               (and_then (await e 98 (reply MODEL_SAVE_ERROR)) (\<lambda>_. logError 101)))"

definition callbackQuery_cancelImageGeneration :: "env \<Rightarrow> nat option \<Rightarrow> unit action" where
  "callbackQuery_cancelImageGeneration e cbmsg =
     and_then (await e 105 (emit (AnswerCallbackQuery (Some CANCELLED_TOAST))))
       (\<lambda>_. and_then (await e 106 conversation_exit)
       (\<lambda>_. edit_callback_message e 107 cbmsg IMAGE_GENERATION_CANCELLED))"

definition callbackQuery_quality :: "env \<Rightarrow> string \<Rightarrow> nat option \<Rightarrow> unit action" where
  "callbackQuery_quality e quality cbmsg =
     and_then (await e 110 (emit (AnswerCallbackQuery None)))
       (\<lambda>_. if \<not> isValidImageGenerationQuality quality
             then edit_callback_message e 113 cbmsg SOMETHING_WENT_WRONG
             else and_then (set_imageQuality (the (quality_of quality)))
                    (\<lambda>_. and_then (edit_callback_message e 119 cbmsg (QUALITY_CHOSEN quality))
                    (\<lambda>_. await e 121 conversation_enter)))"

subsection \<open>Commands, lines 125 to 210\<close>

definition command_start :: "config \<Rightarrow> env \<Rightarrow> TelegramUser \<Rightarrow> unit action" where
  "command_start cfg e sender =
     and_then (await e 128 (reply START_MESSAGE))
       (\<lambda>_. try_catch
          (and_then (await e 133 (User_findOne (tg_id sender)))
             (\<lambda>found. and_then
                (case found of
                   None \<Rightarrow>
                     and_then (await e 135 (reply CREATING_BOT))
                       (\<lambda>responseMsg. and_then
                          (await e 138 (User_create cfg (tg_id sender) (first_name sender) (username sender)))
                       (\<lambda>user. and_then (await e 143 (editText responseMsg BOT_CREATED))
                       (\<lambda>_. return user)))
                 | Some user \<Rightarrow> and_then (await e 147 (reply ENTER_REQUEST)) (\<lambda>_. return user))
                (\<lambda>user. and_then (await e 150 (Chat_create (user_oid user) (clock e 150)))
                (\<lambda>chat. set_chatId (chat_oid chat)))))
          (and_then (await e 156 (reply START_ERROR)) (\<lambda>_. logError 159)))"

definition command_help :: "env \<Rightarrow> unit action" where
  "command_help e = ignore (await e 163 (reply HELP_MESSAGE))"

definition command_newchat :: "env \<Rightarrow> TelegramUser \<Rightarrow> unit action" where
  "command_newchat e sender =
     try_catch
       (and_then (await e 171 (User_findOne (tg_id sender)))
          (\<lambda>user. case user of
               None \<Rightarrow> ignore (await e 173 (reply BEGIN_WITH_START))
             | Some u \<Rightarrow>
                 and_then (await e 177 (Chat_create (user_oid u) (clock e 177)))
                   (\<lambda>chat. and_then (set_chatId (chat_oid chat))
                   (\<lambda>_. ignore (await e 183 (reply NEW_CHAT_CREATED))))))
       (and_then (await e 185 (reply NEWCHAT_ERROR)) (\<lambda>_. logError 188))"

text \<open>\<^verbatim>\<open>!process.env.X\<close> holds when the variable is unset or the empty string.\<close>

definition unset :: "string option \<Rightarrow> bool" where
  "unset v = (case v of None \<Rightarrow> True | Some s \<Rightarrow> s = [])"

definition command_image :: "config \<Rightarrow> env \<Rightarrow> unit action" where
  "command_image cfg e =
     (if unset (IMAGE_QUALITY_CHANGE_AVAILABLE cfg)
      then await e 193 conversation_enter
      else ignore (await e 202 (reply CHOOSE_QUALITY)))"

subsection \<open>Free-text messages, lines 217 to 301\<close>

definition completion :: "env \<Rightarrow> message_doc list \<Rightarrow> int \<Rightarrow> string \<Rightarrow> string option action" where
  "completion e h tid model w =
     (Returned (answerWithChatGPT e h tid model), w\<lparr>trace := trace w @ [CompletionRequest h tid model]\<rparr>)"

text \<open>\<^verbatim>\<open>!answer\<close> holds for an absent answer and for the empty string.\<close>

definition falsy :: "string option \<Rightarrow> bool" where
  "falsy answer = (case answer of None \<Rightarrow> True | Some a \<Rightarrow> a = [])"

text \<open>
  Lines 234 to 248: the chat of the session, or else the newest chat of the user, which
  is then stored in the session. The result is \<open>None\<close> after the early return of line
  246, and otherwise \<^verbatim>\<open>chatObj\<close> and \<^verbatim>\<open>chatId\<close>.
\<close>

definition resolve_chatId :: "env \<Rightarrow> nat \<Rightarrow> user_doc \<Rightarrow> (chat_doc option \<times> nat) option action" where
  "resolve_chatId e responseMessage user =
     (\<lambda>w. case chatId (session w) of
        Some cid \<Rightarrow> return (Some (None, cid)) w
      | None \<Rightarrow>
          and_then (await e 235 (Chat_findLatest (user_oid user)))
            (\<lambda>latestChat. case latestChat of
                 Some c \<Rightarrow> and_then (set_chatId (chat_oid c)) (\<lambda>_. return (Some (Some c, chat_oid c)))
               | None \<Rightarrow> and_then (await e 243 (editText responseMessage PLEASE_START))
                           (\<lambda>_. return None)) w)"

text \<open>Lines 258 to 294: the exchange proper, once user and chat are known.\<close>

definition exchange :: "config \<Rightarrow> env \<Rightarrow> int \<Rightarrow> string \<Rightarrow> nat \<Rightarrow> user_doc \<Rightarrow> chat_doc \<Rightarrow> unit action" where
  "exchange cfg e tid userMessageText responseMessage user chat =
     and_then (await e 258
        (Message_create (chat_oid chat) (user_oid user) RoleUser userMessageText (clock e 258)))
       (\<lambda>_. and_then (await e 265 (Message_find (chat_oid chat)))
       (\<lambda>msgs. and_then (await e 271
          (completion e (slice (- MAX_HISTORY_LENGTH cfg) msgs) tid (selectedModel user)))
       (\<lambda>answer. if falsy answer
          then await e 278 (editText responseMessage GENERATION_FAILED)
          else and_then (await e 284
                 (Message_create (chat_oid chat) (user_oid user) RoleAssistant (the answer) (clock e 284)))
               (\<lambda>_. and_then (await e 292 (Chat_save (chat\<lparr>updatedAt := clock e 291\<rparr>)))
               (\<lambda>_. await e 294 (editText responseMessage (Answer (the answer))))))))"

definition message_body :: "config \<Rightarrow> env \<Rightarrow> int \<Rightarrow> string \<Rightarrow> nat \<Rightarrow> unit action" where
  "message_body cfg e tid userMessageText responseMessage =
     and_then (await e 226 (User_findOne tid))
       (\<lambda>found. case found of
            None \<Rightarrow> await e 228 (editText responseMessage USER_NOT_FOUND_PLEASE_START)
          | Some user \<Rightarrow>
              and_then (resolve_chatId e responseMessage user)
                (\<lambda>r. case r of
                     None \<Rightarrow> return ()
                   | Some (chatObj, cid) \<Rightarrow>
                       and_then (case chatObj of
                                   Some c \<Rightarrow> return (Some c)
                                 | None \<Rightarrow> await e 250 (Chat_findById cid))
                         (\<lambda>chat. case chat of
                              None \<Rightarrow> ignore (await e 252 (reply CHAT_NOT_FOUND_PLEASE_START))
                            | Some c \<Rightarrow> exchange cfg e tid userMessageText responseMessage user c)))"

definition on_message_text :: "config \<Rightarrow> env \<Rightarrow> TelegramUser \<Rightarrow> string \<Rightarrow> unit action" where
  "on_message_text cfg e sender userMessageText =
     and_then (await e 223 (reply LOADING))
       (\<lambda>responseMessage. try_catch
          (message_body cfg e (tg_id sender) userMessageText responseMessage)
          (and_then (await e 296 (editText responseMessage PROCESSING_ERROR))
             (\<lambda>_. logError 299)))"

subsection \<open>The catch-all and the dispatch, lines 304 to 322\<close>

text \<open>
  \<^verbatim>\<open>bot.catch\<close> logs twice (line 306 and one of the lines 310, 312, 314, recorded as
  310) and tries to tell the user.
\<close>

definition bot_catch :: "env \<Rightarrow> unit action" where
  "bot_catch e =
     and_then (logError 306)
       (\<lambda>_. and_then (logError 310)
       (\<lambda>_. try_catch (ignore (await e 318 (reply GENERIC_ERROR))) (logError 320)))"

text \<open>
  The updates the bot handles: a callback with its data and, if there is one, the
  message of its keyboard; a text message that begins with a command addressed to this
  bot, as the name of the command and the whole text of the message; any other text
  message.
\<close>

datatype payload =
    CallbackQuery string "nat option"
  | Command string string
  | Text string

text \<open>
  \<^verbatim>\<open>changeModel\<close> and \<^verbatim>\<open>getAnalytics\<close> (\<^verbatim>\<open>src/commands\<close>) are not part of the sources and
  are parameters of the dispatch.
\<close>

record commands =
  changeModel :: "unit action"
  getAnalytics :: "unit action"

text \<open>
  The handlers in the order of their registration. A callback is handled by the first
  registration whose trigger contains its data; a command that no \<^verbatim>\<open>bot.command\<close> takes
  is a text message like any other.
\<close>

definition route :: "config \<Rightarrow> commands \<Rightarrow> env \<Rightarrow> TelegramUser \<Rightarrow> payload \<Rightarrow> unit action" where
  "route cfg ext e sender p =
     (case p of
        CallbackQuery d cbmsg \<Rightarrow>
          if d \<in> set (map fst (AiModelsLabels cfg)) then callbackQuery_model cfg e sender d cbmsg
          else if d = ''cancelImageGeneration'' then callbackQuery_cancelImageGeneration e cbmsg
          else if d \<in> set (map quality_id [STANDARD, HD]) then callbackQuery_quality e d cbmsg
          else return ()
      | Command c t \<Rightarrow>
          if c = ''start'' then command_start cfg e sender
          else if c = ''help'' then command_help e
          else if c = ''newchat'' then command_newchat e sender
          else if c = ''image'' then command_image cfg e
          else if c = ''models'' then changeModel ext
          else if c = ''stats'' then getAnalytics ext
          else on_message_text cfg e sender t
      | Text t \<Rightarrow> on_message_text cfg e sender t)"

text \<open>
  Modelled from the spec: the conversations plug-in (registered on line 46, before every
  handler) gives the next free-text message to the suspended image dialog; every other
  update falls through to the handlers.
\<close>

definition middleware :: "config \<Rightarrow> commands \<Rightarrow> env \<Rightarrow> TelegramUser \<Rightarrow> payload \<Rightarrow> unit action" where
  "middleware cfg ext e sender p =
     (\<lambda>w. case p of
        Text t \<Rightarrow> if awaiting_prompt w then imageConversation_resume e t w
                  else route cfg ext e sender p w
      | _ \<Rightarrow> route cfg ext e sender p w)"

text \<open>
  The session middleware of line 35 writes the session back after the handlers have
  returned, and not when one of them has thrown: what a throwing handler did to the
  session, the state of the dialog that the plug-in keeps there included, is lost. The
  error then reaches \<^verbatim>\<open>bot.catch\<close>.
\<close>

definition handle_update :: "config \<Rightarrow> commands \<Rightarrow> env \<Rightarrow> TelegramUser \<Rightarrow> payload \<Rightarrow> world \<Rightarrow> world" where
  "handle_update cfg ext e sender p w =
     (case middleware cfg ext e sender p w of
        (Returned _, w') \<Rightarrow> w'
      | (Thrown, w') \<Rightarrow>
          snd (bot_catch e (w'\<lparr>session := session w, awaiting_prompt := awaiting_prompt w\<rparr>)))"

subsection \<open>Start-up, lines 30 to 33 and 324 to 343\<close>

record process_env =
  BOT_API_KEY :: "string option"
  MONGO_DB_URI :: "string option"

datatype connect_result = ConnectRejects | ReadyState nat

datatype startup_event = SetMyCommands | MongooseConnect | BotStart | ConsoleLog | LogStartBotError

text \<open>
  Loading the module either dies of the uncaught error of line 31 or runs to the end of
  the file, doing what is listed.
\<close>

datatype module_load = UncaughtError | Loaded "startup_event list"

definition startBot :: "process_env \<Rightarrow> connect_result \<Rightarrow> startup_event list" where
  "startBot penv conn =
     (if unset (MONGO_DB_URI penv) then [LogStartBotError]
      else case conn of
        ConnectRejects \<Rightarrow> [MongooseConnect, LogStartBotError]
      | ReadyState n \<Rightarrow>
          if n = 0 then [MongooseConnect, LogStartBotError]
          else [MongooseConnect, BotStart, ConsoleLog])"

definition load_module :: "process_env \<Rightarrow> connect_result \<Rightarrow> module_load" where
  "load_module penv conn =
     (if unset (BOT_API_KEY penv) then UncaughtError
      else Loaded (SetMyCommands # startBot penv conn))"

section \<open>Observations on a run\<close>

text \<open>
  The chat that lines 234 to 250 settle on for a user: the chat whose identifier the
  session holds, or else, the session holding none, the newest chat of the user.
\<close>

definition active_chat :: "world \<Rightarrow> user_doc \<Rightarrow> chat_doc option" where
  "active_chat w u =
     (case chatId (session w) of
        Some cid \<Rightarrow> find (\<lambda>c. chat_oid c = cid) (chats w)
      | None \<Rightarrow>
          (case rev (sort_key chat_createdAt (filter (\<lambda>c. chat_userId c = user_oid u) (chats w))) of
             [] \<Rightarrow> None | c # _ \<Rightarrow> Some c))"

text \<open>The Message that lines 258 to 263 store for the text received.\<close>

definition user_message :: "world \<Rightarrow> env \<Rightarrow> user_doc \<Rightarrow> chat_doc \<Rightarrow> string \<Rightarrow> message_doc" where
  "user_message w e u c utext =
     \<lparr>message_oid = next_oid w, msg_chatId = chat_oid c, msg_userId = user_oid u,
      msg_role = RoleUser, content = utext, createdAt = clock e 258\<rparr>"

text \<open>The messages stored by a run that leads from \<open>w\<close> to \<open>w'\<close>.\<close>

definition created_messages :: "world \<Rightarrow> world \<Rightarrow> message_doc list" where
  "created_messages w w' = drop (length (messages w)) (messages w')"

text \<open>
  What the user sees of a run are the messages sent and the edits. The run answers
  through a placeholder when the first visible event sends the text \<open>LOADING\<close> and
  every later one edits that very message.
\<close>

fun visible :: "event \<Rightarrow> bool" where
  "visible (Reply mid t) = True"
| "visible (EditText mid t) = True"
| "visible ev = False"

fun edits :: "nat \<Rightarrow> event \<Rightarrow> bool" where
  "edits mid (EditText mid' t) = (mid' = mid)"
| "edits mid ev = False"

definition via_placeholder :: "event list \<Rightarrow> bool" where
  "via_placeholder evs =
     (case filter visible evs of
        [] \<Rightarrow> True
      | Reply mid t # rest \<Rightarrow> t = LOADING \<and> list_all (edits mid) rest
      | _ \<Rightarrow> False)"

fun image_request :: "event \<Rightarrow> bool" where
  "image_request (ImageRequest prompt q) = True"
| "image_request ev = False"

fun aborted :: "module_load \<Rightarrow> bool" where
  "aborted UncaughtError = True"
| "aborted (Loaded evs) = False"

text \<open>An action that leaves the image quality of the session as it found it.\<close>

definition keeps_quality :: "'a action \<Rightarrow> bool" where
  "keeps_quality m = (\<forall>w. imageQuality (session (snd (m w))) = imageQuality (session w))"

text \<open>
  The updates whose handler is part of \<^verbatim>\<open>bot.ts\<close> and is not the quality callback of
  line 109: a callback that the model callback takes or whose data is no quality
  identifier, a command other than \<^verbatim>\<open>/models\<close> and \<^verbatim>\<open>/stats\<close>, a text message.
\<close>

definition not_quality_selection :: "config \<Rightarrow> payload \<Rightarrow> bool" where
  "not_quality_selection cfg p =
     (case p of
        CallbackQuery d cbmsg \<Rightarrow> d \<in> set (map fst (AiModelsLabels cfg)) \<or> quality_of d = None
      | Command c t \<Rightarrow> c \<noteq> ''models'' \<and> c \<noteq> ''stats''
      | Text t \<Rightarrow> True)"

section \<open>Example inputs\<close>

definition cfg0 :: config where
  "cfg0 = \<lparr>MAX_HISTORY_LENGTH = 2, AiModelsLabels = [(''gpt-4o'', ''GPT-4o'')],
           DEFAULT_MODEL = ''gpt-4o'', IMAGE_QUALITY_CHANGE_AVAILABLE = None\<rparr>"

definition alice :: TelegramUser where
  "alice = \<lparr>tg_id = 7, first_name = ''Alice'', username = None\<rparr>"

text \<open>No call rejects, the clock shows the line number, the completion is "pong".\<close>

definition calm :: env where
  "calm = \<lparr>throws = (\<lambda>l. False), clock = (\<lambda>l. l),
            answerWithChatGPT = (\<lambda>h tid model. Some ''pong''),
            generateImage = (\<lambda>prompt q. True)\<rparr>"

text \<open>The same with a completion requester that yields nothing.\<close>

definition mute :: env where
  "mute = calm\<lparr>answerWithChatGPT := (\<lambda>h tid model. None)\<rparr>"

text \<open>The same with a platform that rejects the final edit of line 294.\<close>

definition edit_rejected :: env where
  "edit_rejected = calm\<lparr>throws := (\<lambda>l. l = 294)\<rparr>"

text \<open>The same with a database that rejects the storing of the assistant Message.\<close>

definition store_rejected :: env where
  "store_rejected = calm\<lparr>throws := (\<lambda>l. l = 284)\<rparr>"

text \<open>The same with a platform that rejects the edit of the notice, line 143.\<close>

definition notice_rejected :: env where
  "notice_rejected = calm\<lparr>throws := (\<lambda>l. l = 143)\<rparr>"

definition fresh :: world where
  "fresh = \<lparr>users = [], chats = [], messages = [], session = initial, awaiting_prompt = False,
            trace = [], next_oid = 0, next_message_id = 0\<rparr>"

text \<open>Alice after \<^verbatim>\<open>/start\<close>: her user document, one chat, and the chat in the session.\<close>

definition settled :: world where
  "settled = \<lparr>users = [\<lparr>user_oid = 0, telegramId = 7, firstName = ''Alice'', userName = None,
                          selectedModel = ''gpt-4o''\<rparr>],
              chats = [\<lparr>chat_oid = 1, chat_userId = 0, chat_createdAt = 150, updatedAt = 150\<rparr>],
              messages = [],
              session = \<lparr>chatId = Some 1, imageQuality = STANDARD\<rparr>,
              awaiting_prompt = False,
              trace = [], next_oid = 2, next_message_id = 3\<rparr>"

definition three_messages :: "message_doc list" where
  "three_messages =
     [\<lparr>message_oid = 2, msg_chatId = 1, msg_userId = 0, msg_role = RoleUser,
        content = ''a'', createdAt = 30\<rparr>,
      \<lparr>message_oid = 3, msg_chatId = 1, msg_userId = 0, msg_role = RoleAssistant,
        content = ''b'', createdAt = 10\<rparr>,
      \<lparr>message_oid = 4, msg_chatId = 1, msg_userId = 0, msg_role = RoleUser,
        content = ''c'', createdAt = 20\<rparr>]"

definition no_database_uri :: process_env where
  "no_database_uri = \<lparr>BOT_API_KEY = Some ''key'', MONGO_DB_URI = None\<rparr>"

definition no_api_key :: process_env where
  "no_api_key = \<lparr>BOT_API_KEY = None, MONGO_DB_URI = Some ''mongodb://db''\<rparr>"

definition no_commands :: commands where
  "no_commands = \<lparr>changeModel = return (), getAnalytics = return ()\<rparr>"

text \<open>Alice with three messages in her chat already.\<close>

definition busy :: world where
  "busy = settled\<lparr>messages := three_messages, next_oid := 5\<rparr>"

section \<open>Basic facts\<close>

lemmas run_defs = and_then_def await_def try_catch_def return_def ignore_def emit_def reply_def
  editText_def logError_def User_findOne_def User_create_def Chat_create_def Chat_findLatest_def
  Chat_findById_def Chat_save_def Message_create_def Message_find_def completion_def
  set_chatId_def set_imageQuality_def edit_callback_message_def emitted_def

lemmas example_defs = cfg0_def alice_def calm_def mute_def edit_rejected_def store_rejected_def
  notice_rejected_def busy_def fresh_def
  settled_def three_messages_def initial_def no_database_uri_def no_api_key_def no_commands_def

lemmas msg_defs = on_message_text_def message_body_def exchange_def resolve_chatId_def

lemmas dialog_defs = conversation_enter_def conversation_exit_def imageConversation_resume_def

lemmas dispatch_defs = handle_update_def middleware_def route_def bot_catch_def

lemma slice_negative: "0 < n \<Longrightarrow> slice (- n) xs = drop (length xs - nat n) xs"
  by (auto simp: slice_def Let_def max_def intro!: arg_cong[where f="\<lambda>k. drop k xs"])

lemma slice_zero: "slice (- 0) xs = xs"
  by (simp add: slice_def)

lemma sorted_find_sorted: "sorted (map createdAt (find_sorted cid ms))"
  by (simp add: find_sorted_def)

lemma mset_find_sorted:
  "mset (find_sorted cid ms) = filter_mset (\<lambda>m. msg_chatId m = cid) (mset ms)"
  by (simp add: find_sorted_def)

lemma find_holds: "find P xs = Some x \<Longrightarrow> P x"
  by (induction xs) (auto split: if_splits)

text \<open>
  Whenever the free-text handler calls the completion requester, it does so for the
  sender's User and model, and the history it passes is the window over the messages of
  the chat the handler has settled on, the message just stored included.
\<close>

lemma request_carries_window:
  assumes "on_message_text cfg e sender utext w = (r, w')"
    and "CompletionRequest h t m \<in> set (emitted w w')"
  shows "\<exists>u c. find (\<lambda>u. telegramId u = tg_id sender) (users w) = Some u
           \<and> active_chat w u = Some c
           \<and> h = history cfg (chat_oid c) (messages w @ [user_message w e u c utext])
           \<and> t = tg_id sender \<and> m = selectedModel u"
  using assms unfolding msg_defs history_def active_chat_def user_message_def
  by (auto simp: run_defs Let_def dest: find_holds
      split: option.splits if_splits prod.splits list.splits)

text \<open>
  And the handler does call the completion requester, with that window, when the
  sender has a User, the handler settles on a chat, and no call before the request
  rejects.
\<close>

lemma request_is_made:
  assumes "\<forall>l \<in> set [223, 226, 235, 250, 258, 265, 271]. \<not> throws e l"
    and "find (\<lambda>u. telegramId u = tg_id sender) (users w) = Some u"
    and "active_chat w u = Some c"
  shows "CompletionRequest (history cfg (chat_oid c) (messages w @ [user_message w e u c utext]))
           (tg_id sender) (selectedModel u)
         \<in> set (emitted w (snd (on_message_text cfg e sender utext w)))"
  using assms unfolding msg_defs history_def active_chat_def user_message_def
  by (auto simp: run_defs Let_def dest: find_holds
      split: option.splits if_splits prod.splits list.splits)

section \<open>The history window (C1)\<close>

text \<open>
  C1. With a positive window constant \<open>N\<close>, the history of a chat is computed from all
  messages of that chat, sorted ascending by creation time, by keeping the final \<open>N\<close>:
  it is a suffix of the sorted messages and so contiguous and chronological; it is all
  \<open>M\<close> of them when \<open>M \<le> N\<close> and has exactly \<open>N\<close> elements when \<open>M > N\<close>. This
  history is what the free-text handler supplies to the completion requester: every
  request of a run carries the history of the chat the handler has settled on, over the
  stored messages and the message just received; and the run makes that request
  whenever the sender has a User, the handler settles on a chat, and none of the calls
  before the request rejects.
\<close>

theorem history_window:
  assumes "0 < MAX_HISTORY_LENGTH cfg"
  shows "mset (find_sorted cid ms) = filter_mset (\<lambda>m. msg_chatId m = cid) (mset ms)
       \<and> sorted (map createdAt (find_sorted cid ms))
       \<and> history cfg cid ms
           = drop (length (find_sorted cid ms) - nat (MAX_HISTORY_LENGTH cfg)) (find_sorted cid ms)
       \<and> suffix (history cfg cid ms) (find_sorted cid ms)
       \<and> sorted (map createdAt (history cfg cid ms))
       \<and> (int (length (find_sorted cid ms)) \<le> MAX_HISTORY_LENGTH cfg
            \<longrightarrow> history cfg cid ms = find_sorted cid ms)
       \<and> (MAX_HISTORY_LENGTH cfg < int (length (find_sorted cid ms))
            \<longrightarrow> int (length (history cfg cid ms)) = MAX_HISTORY_LENGTH cfg)
       \<and> (\<forall>h t m. CompletionRequest h t m
              \<in> set (emitted w (snd (on_message_text cfg e sender utext w)))
            \<longrightarrow> (\<exists>u c. find (\<lambda>u. telegramId u = tg_id sender) (users w) = Some u
                    \<and> active_chat w u = Some c
                    \<and> h = history cfg (chat_oid c) (messages w @ [user_message w e u c utext])
                    \<and> t = tg_id sender \<and> m = selectedModel u))
       \<and> (\<forall>u c. (\<forall>l \<in> set [223, 226, 235, 250, 258, 265, 271]. \<not> throws e l)
              \<and> find (\<lambda>u. telegramId u = tg_id sender) (users w) = Some u
              \<and> active_chat w u = Some c
            \<longrightarrow> CompletionRequest
                   (history cfg (chat_oid c) (messages w @ [user_message w e u c utext]))
                   (tg_id sender) (selectedModel u)
                 \<in> set (emitted w (snd (on_message_text cfg e sender utext w))))"
proof -
  let ?all = "find_sorted cid ms"
  let ?run = "on_message_text cfg e sender utext w"
  have h: "history cfg cid ms = drop (length ?all - nat (MAX_HISTORY_LENGTH cfg)) ?all"
    using assms by (simp add: history_def slice_negative)
  have s: "sorted (map createdAt ?all)" by (rule sorted_find_sorted)
  have chrono: "sorted (map createdAt (history cfg cid ms))"
    unfolding h drop_map[symmetric] using s by (rule sorted_wrt_drop)
  have suff: "suffix (history cfg cid ms) ?all"
    unfolding h by (rule suffix_drop)
  have pure: "mset ?all = filter_mset (\<lambda>m. msg_chatId m = cid) (mset ms)
       \<and> sorted (map createdAt ?all)
       \<and> history cfg cid ms = drop (length ?all - nat (MAX_HISTORY_LENGTH cfg)) ?all
       \<and> suffix (history cfg cid ms) ?all
       \<and> sorted (map createdAt (history cfg cid ms))
       \<and> (int (length ?all) \<le> MAX_HISTORY_LENGTH cfg \<longrightarrow> history cfg cid ms = ?all)
       \<and> (MAX_HISTORY_LENGTH cfg < int (length ?all)
            \<longrightarrow> int (length (history cfg cid ms)) = MAX_HISTORY_LENGTH cfg)"
    using assms h s chrono suff by (auto simp: mset_find_sorted)
  have carried: "\<exists>u c. find (\<lambda>u. telegramId u = tg_id sender) (users w) = Some u
                    \<and> active_chat w u = Some c
                    \<and> h = history cfg (chat_oid c) (messages w @ [user_message w e u c utext])
                    \<and> t = tg_id sender \<and> m = selectedModel u"
    if "CompletionRequest h t m \<in> set (emitted w (snd ?run))" for h t m
    using request_carries_window[of cfg e sender utext w "fst ?run" "snd ?run" h t m] that
    by simp
  have made: "CompletionRequest
                   (history cfg (chat_oid c) (messages w @ [user_message w e u c utext]))
                   (tg_id sender) (selectedModel u)
                 \<in> set (emitted w (snd ?run))"
    if "(\<forall>l \<in> set [223, 226, 235, 250, 258, 265, 271]. \<not> throws e l)
              \<and> find (\<lambda>u. telegramId u = tg_id sender) (users w) = Some u
              \<and> active_chat w u = Some c" for u c
    using that request_is_made[of e sender w u c cfg utext] by blast
  from pure carried made show ?thesis by blast
qed

theorem history_window_witness:
  "CompletionRequest
     [\<lparr>message_oid = 2, msg_chatId = 1, msg_userId = 0, msg_role = RoleUser,
        content = ''a'', createdAt = 30\<rparr>,
      \<lparr>message_oid = 5, msg_chatId = 1, msg_userId = 0, msg_role = RoleUser,
        content = ''hello'', createdAt = 258\<rparr>] 7 ''gpt-4o''
     \<in> set (emitted busy (snd (on_message_text cfg0 calm alice ''hello'' busy)))
   \<and> history cfg0 1 three_messages
     = [\<lparr>message_oid = 4, msg_chatId = 1, msg_userId = 0, msg_role = RoleUser,
          content = ''c'', createdAt = 20\<rparr>,
        \<lparr>message_oid = 2, msg_chatId = 1, msg_userId = 0, msg_role = RoleUser,
          content = ''a'', createdAt = 30\<rparr>]"
proof -
  let ?u = "\<lparr>user_oid = 0, telegramId = 7, firstName = ''Alice'', userName = None,
              selectedModel = ''gpt-4o''\<rparr>"
  let ?c = "\<lparr>chat_oid = 1, chat_userId = 0, chat_createdAt = 150, updatedAt = 150\<rparr>"
  have n: "0 < MAX_HISTORY_LENGTH cfg0"
    by (simp add: cfg0_def)
  have u: "find (\<lambda>u. telegramId u = tg_id alice) (users busy) = Some ?u"
    by (simp add: example_defs)
  have c: "active_chat busy ?u = Some ?c"
    by (simp add: active_chat_def example_defs)
  have t: "\<forall>l \<in> set [223, 226, 235, 250, 258, 265, 271]. \<not> throws calm l"
    by (simp add: calm_def)
  have h: "history cfg0 (chat_oid ?c) (messages busy @ [user_message busy calm ?u ?c ''hello''])
     = [\<lparr>message_oid = 2, msg_chatId = 1, msg_userId = 0, msg_role = RoleUser,
          content = ''a'', createdAt = 30\<rparr>,
        \<lparr>message_oid = 5, msg_chatId = 1, msg_userId = 0, msg_role = RoleUser,
          content = ''hello'', createdAt = 258\<rparr>]"
    by (simp add: history_def slice_def find_sorted_def user_message_def example_defs)
  have h3: "history cfg0 1 three_messages
     = [\<lparr>message_oid = 4, msg_chatId = 1, msg_userId = 0, msg_role = RoleUser,
          content = ''c'', createdAt = 20\<rparr>,
        \<lparr>message_oid = 2, msg_chatId = 1, msg_userId = 0, msg_role = RoleUser,
          content = ''a'', createdAt = 30\<rparr>]"
    by (simp add: history_def slice_def find_sorted_def cfg0_def three_messages_def)
  have "CompletionRequest
          (history cfg0 (chat_oid ?c) (messages busy @ [user_message busy calm ?u ?c ''hello'']))
          (tg_id alice) (selectedModel ?u)
        \<in> set (emitted busy (snd (on_message_text cfg0 calm alice ''hello'' busy)))"
    using history_window[OF n, where w=busy and e=calm and sender=alice and utext="''hello''"
        and cid=1 and ms=three_messages] u c t
    by blast
  then show ?thesis
    unfolding h using h3 by (simp add: alice_def)
qed

section \<open>The commands \<^verbatim>\<open>/start\<close> and \<^verbatim>\<open>/newchat\<close> (C2, C5)\<close>

lemma start_at_most_one:
  assumes "command_start cfg e sender w = (r, w')"
  shows "prefix (users w) (users w') \<and> length (users w') \<le> Suc (length (users w))
       \<and> prefix (chats w) (chats w') \<and> length (chats w') \<le> Suc (length (chats w))
       \<and> (users w' \<noteq> users w \<longrightarrow> find (\<lambda>u. telegramId u = tg_id sender) (users w) = None)
       \<and> (session w' \<noteq> session w \<longrightarrow>
            (\<exists>c. chats w' = chats w @ [c] \<and> session w' = (session w)\<lparr>chatId := Some (chat_oid c)\<rparr>))"
  using assms unfolding command_start_def
  by (auto simp: run_defs Let_def split: option.splits if_splits prod.splits)

text \<open>
  C2, as stated, fails: when the platform rejects the edit of the notice (line 143),
  the User has been created, the catch block of lines 155 to 160 takes over, and the
  handler returns without a Chat and without a chat in the session.
\<close>

theorem start_without_chat_counterexample:
  "throws notice_rejected 143
   \<and> fst (command_start cfg0 notice_rejected alice fresh) = Returned ()
   \<and> users (snd (command_start cfg0 notice_rejected alice fresh))
       = [\<lparr>user_oid = 0, telegramId = 7, firstName = ''Alice'', userName = None,
            selectedModel = ''gpt-4o''\<rparr>]
   \<and> chats (snd (command_start cfg0 notice_rejected alice fresh)) = []
   \<and> chatId (session (snd (command_start cfg0 notice_rejected alice fresh))) = None
   \<and> emitted fresh (snd (command_start cfg0 notice_rejected alice fresh))
       = [Reply 0 START_MESSAGE, Reply 1 CREATING_BOT, Reply 2 START_ERROR, LogError 159]"
  by (simp add: command_start_def run_defs example_defs Let_def)

text \<open>
  C2, amended. Every run of \<^verbatim>\<open>/start\<close> appends at most one User and at most one Chat
  and removes or changes none; it appends a User only if no User with the sender's
  telegram identifier exists; and it changes the session only by making a Chat it has
  just appended the chat of the session. When none of its awaited calls rejects, it
  appends exactly one Chat, owned by the sender's User, and makes it the chat of the
  session; it appends a User, built from the sender, if no User with the sender's
  telegram identifier exists, and leaves the users alone otherwise.
\<close>

theorem start_creates_chat:
  fixes cfg e sender w
  defines "w' \<equiv> snd (command_start cfg e sender w)"
  shows "prefix (users w) (users w') \<and> length (users w') \<le> Suc (length (users w))
       \<and> prefix (chats w) (chats w') \<and> length (chats w') \<le> Suc (length (chats w))
       \<and> (users w' \<noteq> users w \<longrightarrow> find (\<lambda>u. telegramId u = tg_id sender) (users w) = None)
       \<and> (session w' \<noteq> session w \<longrightarrow>
            (\<exists>c. chats w' = chats w @ [c] \<and> session w' = (session w)\<lparr>chatId := Some (chat_oid c)\<rparr>))
       \<and> ((\<forall>l \<in> set [128, 133, 135, 138, 143, 147, 150]. \<not> throws e l) \<longrightarrow>
            (case find (\<lambda>u. telegramId u = tg_id sender) (users w) of
               None \<Rightarrow>
                 users w' = users w @ [\<lparr>user_oid = next_oid w, telegramId = tg_id sender,
                        firstName = first_name sender, userName = username sender,
                        selectedModel = DEFAULT_MODEL cfg\<rparr>]
                 \<and> chats w' = chats w @ [\<lparr>chat_oid = Suc (next_oid w), chat_userId = next_oid w,
                        chat_createdAt = clock e 150, updatedAt = clock e 150\<rparr>]
                 \<and> chatId (session w') = Some (Suc (next_oid w))
             | Some u \<Rightarrow>
                 users w' = users w
                 \<and> chats w' = chats w @ [\<lparr>chat_oid = next_oid w, chat_userId = user_oid u,
                        chat_createdAt = clock e 150, updatedAt = clock e 150\<rparr>]
                 \<and> chatId (session w') = Some (next_oid w))
            \<and> length (chats w') = Suc (length (chats w))
            \<and> fst (command_start cfg e sender w) = Returned ())"
proof -
  have always: "prefix (users w) (users w') \<and> length (users w') \<le> Suc (length (users w))
       \<and> prefix (chats w) (chats w') \<and> length (chats w') \<le> Suc (length (chats w))
       \<and> (users w' \<noteq> users w \<longrightarrow> find (\<lambda>u. telegramId u = tg_id sender) (users w) = None)
       \<and> (session w' \<noteq> session w \<longrightarrow>
            (\<exists>c. chats w' = chats w @ [c] \<and> session w' = (session w)\<lparr>chatId := Some (chat_oid c)\<rparr>))"
    unfolding w'_def
    by (rule start_at_most_one[of cfg e sender w "fst (command_start cfg e sender w)"]) simp
  have calm: "(case find (\<lambda>u. telegramId u = tg_id sender) (users w) of
               None \<Rightarrow>
                 users w' = users w @ [\<lparr>user_oid = next_oid w, telegramId = tg_id sender,
                        firstName = first_name sender, userName = username sender,
                        selectedModel = DEFAULT_MODEL cfg\<rparr>]
                 \<and> chats w' = chats w @ [\<lparr>chat_oid = Suc (next_oid w), chat_userId = next_oid w,
                        chat_createdAt = clock e 150, updatedAt = clock e 150\<rparr>]
                 \<and> chatId (session w') = Some (Suc (next_oid w))
             | Some u \<Rightarrow>
                 users w' = users w
                 \<and> chats w' = chats w @ [\<lparr>chat_oid = next_oid w, chat_userId = user_oid u,
                        chat_createdAt = clock e 150, updatedAt = clock e 150\<rparr>]
                 \<and> chatId (session w') = Some (next_oid w))
            \<and> length (chats w') = Suc (length (chats w))
            \<and> fst (command_start cfg e sender w) = Returned ()"
    if "\<forall>l \<in> set [128, 133, 135, 138, 143, 147, 150]. \<not> throws e l"
    using that unfolding w'_def command_start_def
    by (simp add: run_defs Let_def split: option.splits)
  from always calm show ?thesis by blast
qed

theorem start_creates_chat_witness:
  "users (snd (command_start cfg0 calm alice fresh))
     = [\<lparr>user_oid = 0, telegramId = 7, firstName = ''Alice'', userName = None,
          selectedModel = ''gpt-4o''\<rparr>]
   \<and> chats (snd (command_start cfg0 calm alice fresh))
     = [\<lparr>chat_oid = 1, chat_userId = 0, chat_createdAt = 150, updatedAt = 150\<rparr>]
   \<and> chatId (session (snd (command_start cfg0 calm alice fresh))) = Some 1
   \<and> users (snd (command_start cfg0 calm alice settled)) = users settled
   \<and> length (chats (snd (command_start cfg0 calm alice settled))) = 2
   \<and> length (chats (snd (command_start cfg0 notice_rejected alice fresh))) \<le> 1"
proof -
  have t: "\<forall>l \<in> set [128, 133, 135, 138, 143, 147, 150]. \<not> throws calm l"
    by (simp add: calm_def)
  have u: "find (\<lambda>u. telegramId u = tg_id alice) (users fresh) = None"
    "find (\<lambda>u. telegramId u = tg_id alice) (users settled)
       = Some \<lparr>user_oid = 0, telegramId = 7, firstName = ''Alice'', userName = None,
               selectedModel = ''gpt-4o''\<rparr>"
    by (simp_all add: example_defs)
  have new_sender:
    "users (snd (command_start cfg0 calm alice fresh))
       = users fresh @ [\<lparr>user_oid = next_oid fresh, telegramId = tg_id alice,
            firstName = first_name alice, userName = username alice,
            selectedModel = DEFAULT_MODEL cfg0\<rparr>]
     \<and> chats (snd (command_start cfg0 calm alice fresh))
       = chats fresh @ [\<lparr>chat_oid = Suc (next_oid fresh), chat_userId = next_oid fresh,
            chat_createdAt = clock calm 150, updatedAt = clock calm 150\<rparr>]
     \<and> chatId (session (snd (command_start cfg0 calm alice fresh))) = Some (Suc (next_oid fresh))"
    using t start_creates_chat[where e=calm and sender=alice and w=fresh and cfg=cfg0]
    unfolding u(1) by simp
  have known_sender:
    "users (snd (command_start cfg0 calm alice settled)) = users settled
     \<and> length (chats (snd (command_start cfg0 calm alice settled))) = Suc (length (chats settled))"
    using t start_creates_chat[where e=calm and sender=alice and w=settled and cfg=cfg0]
    unfolding u(2) by simp
  have rejected:
    "length (chats (snd (command_start cfg0 notice_rejected alice fresh)))
       \<le> Suc (length (chats fresh))"
    using start_creates_chat[where e=notice_rejected and sender=alice and w=fresh and cfg=cfg0]
    by blast
  show ?thesis
    using new_sender known_sender rejected
    by (simp add: cfg0_def alice_def calm_def fresh_def settled_def initial_def)
qed

text \<open>
  C5. \<^verbatim>\<open>/newchat\<close> from a sender without a User creates no Chat and leaves the session
  alone; when the lookup and the reply do not reject, its whole effect is the one new
  message that asks to begin with \<^verbatim>\<open>/start\<close>.
\<close>

theorem newchat_without_user:
  assumes "find (\<lambda>u. telegramId u = tg_id sender) (users w) = None"
  shows "chats (snd (command_newchat e sender w)) = chats w
       \<and> session (snd (command_newchat e sender w)) = session w
       \<and> (\<not> throws e 171 \<and> \<not> throws e 173 \<longrightarrow>
            command_newchat e sender w
              = (Returned (), w\<lparr>trace := trace w @ [Reply (next_message_id w) BEGIN_WITH_START],
                                next_message_id := Suc (next_message_id w)\<rparr>))"
  using assms unfolding command_newchat_def
  by (simp add: run_defs Let_def split: option.splits)

theorem newchat_without_user_witness:
  "chats (snd (command_newchat calm alice fresh)) = []
   \<and> trace (snd (command_newchat calm alice fresh)) = [Reply 0 BEGIN_WITH_START]"
  using newchat_without_user[where sender=alice and w=fresh and e=calm]
  by (simp add: example_defs)

section \<open>Free-text messages without a chat (C4)\<close>

text \<open>
  C4. A free-text message that arrives when the session holds no chat identifier and
  the sender has no User, or has a User that owns no Chat, stores no Message. When the
  calls on the way do not reject, the handler sends the placeholder and edits it to the
  text that asks for \<^verbatim>\<open>/start\<close> (line 229 without a User, line 244 without a Chat) and
  returns.
\<close>

theorem no_chat_please_start:
  assumes "chatId (session w) = None"
    and "case find (\<lambda>u. telegramId u = tg_id sender) (users w) of
           None \<Rightarrow> True
         | Some u \<Rightarrow> list_all (\<lambda>c. chat_userId c \<noteq> user_oid u) (chats w)"
  shows "messages (snd (on_message_text cfg e sender utext w)) = messages w
       \<and> ((\<forall>l \<in> set [223, 226, 228, 235, 243]. \<not> throws e l) \<longrightarrow>
            fst (on_message_text cfg e sender utext w) = Returned ()
            \<and> emitted w (snd (on_message_text cfg e sender utext w))
              = [Reply (next_message_id w) LOADING,
                 EditText (next_message_id w)
                   (if find (\<lambda>u. telegramId u = tg_id sender) (users w) = None
                    then USER_NOT_FOUND_PLEASE_START else PLEASE_START)])"
proof -
  have nochat: "filter (\<lambda>c. chat_userId c = user_oid u) (chats w) = []"
    if "find (\<lambda>u. telegramId u = tg_id sender) (users w) = Some u" for u
    using assms(2) that by (auto simp: list_all_iff filter_empty_conv)
  show ?thesis
    using assms(1) nochat unfolding on_message_text_def message_body_def resolve_chatId_def
    by (auto simp: run_defs Let_def split: option.splits)
qed

theorem no_chat_please_start_witness:
  "messages (snd (on_message_text cfg0 calm alice ''hello'' fresh)) = []
   \<and> trace (snd (on_message_text cfg0 calm alice ''hello'' fresh))
       = [Reply 0 LOADING, EditText 0 USER_NOT_FOUND_PLEASE_START]
   \<and> messages (snd (on_message_text cfg0 calm alice ''hello''
        (settled\<lparr>chats := [], session := initial\<rparr>))) = []
   \<and> trace (snd (on_message_text cfg0 calm alice ''hello''
        (settled\<lparr>chats := [], session := initial\<rparr>)))
       = [Reply 3 LOADING, EditText 3 PLEASE_START]"
  using no_chat_please_start[where w=fresh and sender=alice and cfg=cfg0 and e=calm and utext="''hello''"]
    no_chat_please_start[where w="settled\<lparr>chats := [], session := initial\<rparr>" and sender=alice
      and cfg=cfg0 and e=calm and utext="''hello''"]
  by (simp add: example_defs emitted_def)

section \<open>An empty completion (C3)\<close>

text \<open>
  C3. Take a run of the free-text handler in which the completion requester was called
  and its result is absent or empty. Then the only Message the run has stored is the
  user's, with the text received, and no Chat has changed; and unless the platform
  rejects the edit of line 278, the handler returns after exactly three events: the
  placeholder, the completion request, and the edit of the placeholder to the text of
  the generation failure.
\<close>

theorem empty_completion:
  assumes "on_message_text cfg e sender utext w = (r, w')"
    and "CompletionRequest h t m \<in> set (emitted w w')"
    and "falsy (answerWithChatGPT e h t m)"
  shows "map (\<lambda>x. (msg_role x, content x)) (created_messages w w') = [(RoleUser, utext)]
       \<and> chats w' = chats w
       \<and> (\<not> throws e 278 \<longrightarrow> r = Returned ()
            \<and> emitted w w'
               = [Reply (next_message_id w) LOADING, CompletionRequest h t m,
                  EditText (next_message_id w) GENERATION_FAILED])"
  using assms unfolding msg_defs created_messages_def
  by (auto simp: run_defs Let_def split: option.splits if_splits prod.splits list.splits)

theorem empty_completion_witness:
  "map (\<lambda>x. (msg_role x, content x))
     (created_messages settled (snd (on_message_text cfg0 mute alice ''hello'' settled)))
     = [(RoleUser, ''hello'')]
   \<and> emitted settled (snd (on_message_text cfg0 mute alice ''hello'' settled))
     = [Reply 3 LOADING,
        CompletionRequest [\<lparr>message_oid = 2, msg_chatId = 1, msg_userId = 0, msg_role = RoleUser,
           content = ''hello'', createdAt = 258\<rparr>] 7 ''gpt-4o'',
        EditText 3 GENERATION_FAILED]"
proof -
  let ?um = "\<lparr>message_oid = 2, msg_chatId = 1, msg_userId = 0, msg_role = RoleUser,
               content = ''hello'', createdAt = 258\<rparr>"
  let ?w' = "settled\<lparr>messages := [?um],
               trace := [Reply 3 LOADING, CompletionRequest [?um] 7 ''gpt-4o'',
                         EditText 3 GENERATION_FAILED],
               next_oid := 3, next_message_id := 4\<rparr>"
  have run: "on_message_text cfg0 mute alice ''hello'' settled = (Returned (), ?w')"
    by (simp add: msg_defs run_defs example_defs slice_def find_sorted_def falsy_def)
  have req: "CompletionRequest [?um] 7 ''gpt-4o'' \<in> set (emitted settled ?w')"
    by (simp add: emitted_def settled_def)
  have emp: "falsy (answerWithChatGPT mute [?um] 7 ''gpt-4o'')"
    by (simp add: mute_def calm_def falsy_def)
  have ok: "\<not> throws mute 278"
    by (simp add: mute_def calm_def)
  show ?thesis
    unfolding run using empty_completion[OF run req emp] ok
    by (simp add: settled_def)
qed

section \<open>Replies and the placeholder (C6)\<close>

text \<open>
  C6, as stated, fails: \<^verbatim>\<open>/start\<close> from a new sender sends two new messages (the
  greeting and a notice), and only the notice is edited afterwards.
\<close>

theorem start_replies_counterexample:
  "emitted fresh (snd (command_start cfg0 calm alice fresh))
     = [Reply 0 START_MESSAGE, Reply 1 CREATING_BOT, EditText 1 BOT_CREATED]
   \<and> \<not> via_placeholder (emitted fresh (snd (command_start cfg0 calm alice fresh)))"
  by (simp add: command_start_def run_defs example_defs via_placeholder_def Let_def)

text \<open>
  C6, amended. In the free-text handler, when the chat identifier of the session (if
  there is one) names a stored Chat, the first thing the user sees is the new message
  \<open>LOADING\<close>, and everything the user sees afterwards is an edit of that message,
  whichever calls reject.
\<close>

theorem message_replies_via_placeholder:
  assumes "on_message_text cfg e sender utext w = (r, w')"
    and "case chatId (session w) of
           None \<Rightarrow> True
         | Some cid \<Rightarrow> find (\<lambda>c. chat_oid c = cid) (chats w) \<noteq> None"
  shows "via_placeholder (emitted w w')"
  using assms unfolding msg_defs via_placeholder_def
  by (auto simp: run_defs Let_def split: option.splits if_splits prod.splits list.splits)

theorem message_replies_via_placeholder_witness:
  "emitted settled (snd (on_message_text cfg0 calm alice ''hello'' settled))
     = [Reply 3 LOADING,
        CompletionRequest [\<lparr>message_oid = 2, msg_chatId = 1, msg_userId = 0, msg_role = RoleUser,
           content = ''hello'', createdAt = 258\<rparr>] 7 ''gpt-4o'',
        EditText 3 (Answer ''pong'')]
   \<and> via_placeholder (emitted settled (snd (on_message_text cfg0 calm alice ''hello'' settled)))"
proof -
  have "find (\<lambda>c. chat_oid c = 1) (chats settled) \<noteq> None"
    by (simp add: example_defs)
  then have "via_placeholder (emitted settled (snd (on_message_text cfg0 calm alice ''hello'' settled)))"
    using message_replies_via_placeholder[where w=settled and cfg=cfg0 and e=calm and sender=alice
        and utext="''hello''" and r="fst (on_message_text cfg0 calm alice ''hello'' settled)"
        and w'="snd (on_message_text cfg0 calm alice ''hello'' settled)"]
    by (simp add: settled_def)
  moreover have "emitted settled (snd (on_message_text cfg0 calm alice ''hello'' settled))
     = [Reply 3 LOADING,
        CompletionRequest [\<lparr>message_oid = 2, msg_chatId = 1, msg_userId = 0, msg_role = RoleUser,
           content = ''hello'', createdAt = 258\<rparr>] 7 ''gpt-4o'',
        EditText 3 (Answer ''pong'')]"
    by (simp add: msg_defs run_defs example_defs slice_def find_sorted_def falsy_def)
  ultimately show ?thesis by simp
qed

section \<open>Missing credentials (C7)\<close>

text \<open>
  C7, as stated, fails for the database connection string: without it the module
  loads to its end. The error is thrown inside the \<^verbatim>\<open>try\<close> of \<^verbatim>\<open>startBot\<close> and only
  logged.
\<close>

theorem missing_database_uri_counterexample:
  "unset (MONGO_DB_URI no_database_uri)
   \<and> \<not> aborted (load_module no_database_uri (ReadyState 1))
   \<and> load_module no_database_uri (ReadyState 1) = Loaded [SetMyCommands, LogStartBotError]"
  by (simp add: load_module_def startBot_def unset_def no_database_uri_def)

text \<open>
  C7, amended. Without the API key of the platform the module dies of an uncaught
  error when it is loaded. With the key and without the connection string of the
  database the module loads: the commands are registered, the error is logged, no
  connection is made and the bot is not started. The bot is started only when both
  are present.
\<close>

theorem missing_credentials:
  "(unset (BOT_API_KEY penv) \<longrightarrow> load_module penv conn = UncaughtError)
   \<and> (\<not> unset (BOT_API_KEY penv) \<and> unset (MONGO_DB_URI penv) \<longrightarrow>
        load_module penv conn = Loaded [SetMyCommands, LogStartBotError])
   \<and> (\<forall>evs. load_module penv conn = Loaded evs \<and> BotStart \<in> set evs \<longrightarrow>
        \<not> unset (BOT_API_KEY penv) \<and> \<not> unset (MONGO_DB_URI penv))"
  by (auto simp: load_module_def startBot_def split: if_splits connect_result.splits)

theorem missing_credentials_witness:
  "load_module no_api_key (ReadyState 1) = UncaughtError
   \<and> load_module (no_database_uri\<lparr>MONGO_DB_URI := Some []\<rparr>) (ReadyState 1)
       = Loaded [SetMyCommands, LogStartBotError]"
  using missing_credentials[where penv=no_api_key and conn="ReadyState 1"]
    missing_credentials[where penv="no_database_uri\<lparr>MONGO_DB_URI := Some []\<rparr>"
      and conn="ReadyState 1"]
  by (simp add: unset_def no_api_key_def no_database_uri_def)

section \<open>The image dialog (C8)\<close>

lemma quality_of_data:
  "quality_of d = Some q \<Longrightarrow> d \<noteq> ''cancelImageGeneration''"
  "quality_of d = Some q \<Longrightarrow> d \<in> set (map quality_id [STANDARD, HD])"
  by (auto simp: quality_of_def split: if_splits)

text \<open>
  C8. Whatever the calls do, neither the cancel callback nor the handling of an update
  with the cancel token asks the image API for anything. When its three calls do not
  reject, the cancel callback answers the callback with the confirmation, leaves the
  dialog and edits the message of the keyboard to the text of the cancellation. When a
  quality is chosen instead (the calls of the quality callback not rejecting) and a
  prompt is sent next, the two updates together ask the image API exactly once, with
  that prompt and the chosen quality.
\<close>

theorem cancel_never_generates:
  "list_all (\<lambda>ev. \<not> image_request ev)
     (emitted w (handle_update cfg ext e sender (CallbackQuery ''cancelImageGeneration'' cbmsg) w))
   \<and> list_all (\<lambda>ev. \<not> image_request ev)
     (emitted w (snd (callbackQuery_cancelImageGeneration e cbmsg w)))
   \<and> ((\<forall>l \<in> set [105, 106, 107]. \<not> throws e l) \<longrightarrow>
        callbackQuery_cancelImageGeneration e cbmsg w
          = (Returned (),
             w\<lparr>awaiting_prompt := False,
               trace := trace w @ [AnswerCallbackQuery (Some CANCELLED_TOAST), ConversationExit]
                 @ (case cbmsg of None \<Rightarrow> [] | Some mid \<Rightarrow> [EditText mid IMAGE_GENERATION_CANCELLED])\<rparr>))
   \<and> ((\<forall>l \<in> set [110, 119, 121]. \<not> throws e l) \<and> quality_of d = Some q
        \<and> d \<notin> set (map fst (AiModelsLabels cfg)) \<longrightarrow>
        filter image_request
          (emitted w (handle_update cfg ext e sender (Text prompt)
             (handle_update cfg ext e sender (CallbackQuery d cbmsg) w)))
          = [ImageRequest prompt q])"
proof (intro conjI impI)
  show "list_all (\<lambda>ev. \<not> image_request ev)
     (emitted w (handle_update cfg ext e sender (CallbackQuery ''cancelImageGeneration'' cbmsg) w))"
    unfolding dispatch_defs callbackQuery_cancelImageGeneration_def callbackQuery_model_def
    by (auto simp: run_defs dialog_defs User_save_def split: option.splits)
  show "list_all (\<lambda>ev. \<not> image_request ev)
     (emitted w (snd (callbackQuery_cancelImageGeneration e cbmsg w)))"
    unfolding callbackQuery_cancelImageGeneration_def
    by (auto simp: run_defs dialog_defs split: option.splits)
  show "callbackQuery_cancelImageGeneration e cbmsg w
          = (Returned (),
             w\<lparr>awaiting_prompt := False,
               trace := trace w @ [AnswerCallbackQuery (Some CANCELLED_TOAST), ConversationExit]
                 @ (case cbmsg of None \<Rightarrow> [] | Some mid \<Rightarrow> [EditText mid IMAGE_GENERATION_CANCELLED])\<rparr>)"
    if "\<forall>l \<in> set [105, 106, 107]. \<not> throws e l"
    using that unfolding callbackQuery_cancelImageGeneration_def
    by (auto simp: run_defs dialog_defs split: option.splits)
  show "filter image_request
          (emitted w (handle_update cfg ext e sender (Text prompt)
             (handle_update cfg ext e sender (CallbackQuery d cbmsg) w)))
          = [ImageRequest prompt q]"
    if "(\<forall>l \<in> set [110, 119, 121]. \<not> throws e l) \<and> quality_of d = Some q
        \<and> d \<notin> set (map fst (AiModelsLabels cfg))"
    using that quality_of_data[of d q] unfolding dispatch_defs callbackQuery_quality_def isValidImageGenerationQuality_def
    by (auto simp: run_defs dialog_defs split: option.splits)
qed

theorem cancel_never_generates_witness:
  "callbackQuery_cancelImageGeneration calm (Some 2) fresh
     = (Returned (),
        fresh\<lparr>awaiting_prompt := False,
              trace := [AnswerCallbackQuery (Some CANCELLED_TOAST), ConversationExit,
                        EditText 2 IMAGE_GENERATION_CANCELLED]\<rparr>)
   \<and> filter image_request
        (emitted fresh (handle_update cfg0 no_commands calm alice (Text ''a cat'')
           (handle_update cfg0 no_commands calm alice (CallbackQuery ''hd'' (Some 2)) fresh)))
     = [ImageRequest ''a cat'' HD]"
proof -
  have q: "quality_of ''hd'' = Some HD"
    by (simp add: quality_of_def)
  have k: "''hd'' \<notin> set (map fst (AiModelsLabels cfg0))"
    by (simp add: cfg0_def)
  have t: "\<forall>l \<in> set [105, 106, 107]. \<not> throws calm l" "\<forall>l \<in> set [110, 119, 121]. \<not> throws calm l"
    by (simp_all add: calm_def)
  show ?thesis
    using cancel_never_generates[where e=calm and cbmsg="Some 2" and w=fresh and cfg=cfg0
        and ext=no_commands and sender=alice and d="''hd''" and q=HD and prompt="''a cat''"]
      q k t
    by (simp add: fresh_def)
qed

section \<open>The timestamp of the chat (C9)\<close>

text \<open>
  C9, as stated, fails for an error thrown late: when the platform rejects the final
  edit of line 294, the catch block runs although the assistant Message is stored and
  the Chat already carries its new timestamp.
\<close>

theorem late_rejection_counterexample:
  "throws edit_rejected 294
   \<and> LogError 299
       \<in> set (emitted settled (snd (on_message_text cfg0 edit_rejected alice ''hello'' settled)))
   \<and> chats settled = [\<lparr>chat_oid = 1, chat_userId = 0, chat_createdAt = 150, updatedAt = 150\<rparr>]
   \<and> chats (snd (on_message_text cfg0 edit_rejected alice ''hello'' settled))
       = [\<lparr>chat_oid = 1, chat_userId = 0, chat_createdAt = 150, updatedAt = 291\<rparr>]
   \<and> map (\<lambda>x. (msg_role x, content x))
        (created_messages settled (snd (on_message_text cfg0 edit_rejected alice ''hello'' settled)))
       = [(RoleUser, ''hello''), (RoleAssistant, ''pong'')]"
  by (simp add: msg_defs run_defs example_defs slice_def find_sorted_def falsy_def
      created_messages_def)

text \<open>
  C9, amended. In a run of the free-text handler, a Chat changes only if the completion
  was not empty, the assistant Message was stored after the user's, and the save of
  line 292 was not rejected. If the completion requester was called and its result is
  absent or empty, no Chat changes and the only Message stored is the user's. If one of
  the calls of lines 223, 226, 258, 265, 271 and 284 rejects, no Chat changes and no
  assistant Message is stored; if the save of line 292 rejects, no Chat changes.
\<close>

theorem timestamp_bump:
  assumes "on_message_text cfg e sender utext w = (r, w')"
  shows "(chats w' \<noteq> chats w \<longrightarrow>
            map msg_role (created_messages w w') = [RoleUser, RoleAssistant]
            \<and> \<not> throws e 292
            \<and> (\<exists>h t m. CompletionRequest h t m \<in> set (emitted w w')
                  \<and> \<not> falsy (answerWithChatGPT e h t m)))
       \<and> (\<forall>h t m. CompletionRequest h t m \<in> set (emitted w w')
              \<and> falsy (answerWithChatGPT e h t m) \<longrightarrow>
            chats w' = chats w
            \<and> map (\<lambda>x. (msg_role x, content x)) (created_messages w w') = [(RoleUser, utext)])
       \<and> (throws e 223 \<or> throws e 226 \<or> throws e 258 \<or> throws e 265 \<or> throws e 271
            \<or> throws e 284 \<longrightarrow>
            chats w' = chats w \<and> RoleAssistant \<notin> set (map msg_role (created_messages w w')))
       \<and> (throws e 292 \<longrightarrow> chats w' = chats w)"
  using assms unfolding msg_defs created_messages_def
  by (auto simp: run_defs Let_def split: option.splits if_splits prod.splits list.splits)

theorem timestamp_bump_witness:
  "map msg_role (created_messages settled (snd (on_message_text cfg0 calm alice ''hello'' settled)))
     = [RoleUser, RoleAssistant]
   \<and> chats (snd (on_message_text cfg0 store_rejected alice ''hello'' settled)) = chats settled
   \<and> RoleAssistant \<notin> set (map msg_role
        (created_messages settled (snd (on_message_text cfg0 store_rejected alice ''hello'' settled))))"
proof -
  have changed: "chats (snd (on_message_text cfg0 calm alice ''hello'' settled)) \<noteq> chats settled"
    by (simp add: msg_defs run_defs example_defs slice_def find_sorted_def falsy_def)
  have rejected: "throws store_rejected 284"
    by (simp add: store_rejected_def)
  show ?thesis
    using changed rejected
      timestamp_bump[where cfg=cfg0 and e=calm and sender=alice and utext="''hello''" and w=settled
        and r="fst (on_message_text cfg0 calm alice ''hello'' settled)"
        and w'="snd (on_message_text cfg0 calm alice ''hello'' settled)"]
      timestamp_bump[where cfg=cfg0 and e=store_rejected and sender=alice and utext="''hello''"
        and w=settled
        and r="fst (on_message_text cfg0 store_rejected alice ''hello'' settled)"
        and w'="snd (on_message_text cfg0 store_rejected alice ''hello'' settled)"]
    by simp
qed

section \<open>The image quality of the session (C10)\<close>

named_theorems keeps

lemma keeps_return [keeps]: "keeps_quality (return a)"
  by (simp add: keeps_quality_def return_def)

lemma keeps_and_then [keeps]:
  "keeps_quality m \<Longrightarrow> (\<And>a. keeps_quality (f a)) \<Longrightarrow> keeps_quality (and_then m f)"
  by (auto simp: keeps_quality_def and_then_def split: prod.splits outcome.splits) (metis snd_conv)+

lemma keeps_await [keeps]: "keeps_quality m \<Longrightarrow> keeps_quality (await e l m)"
  by (simp add: keeps_quality_def await_def)

lemma keeps_try_catch [keeps]:
  "keeps_quality m \<Longrightarrow> keeps_quality h \<Longrightarrow> keeps_quality (try_catch m h)"
  by (auto simp: keeps_quality_def try_catch_def split: prod.splits outcome.splits) (metis snd_conv)+

lemma keeps_ignore [keeps]: "keeps_quality m \<Longrightarrow> keeps_quality (ignore m)"
  by (simp add: ignore_def keeps_and_then keeps_return)

lemma keeps_primitives [keeps]:
  "keeps_quality (emit ev)" "keeps_quality (reply t)" "keeps_quality (editText mid t)"
  "keeps_quality (logError l)" "keeps_quality (User_findOne tid)"
  "keeps_quality (User_create cfg tid f u)" "keeps_quality (User_save ud)"
  "keeps_quality (Chat_create uid now)" "keeps_quality (Chat_findLatest uid)"
  "keeps_quality (Chat_findById cid)" "keeps_quality (Chat_save c)"
  "keeps_quality (Message_create cid uid r s now)" "keeps_quality (Message_find cid)"
  "keeps_quality (completion e h tid model)" "keeps_quality (set_chatId cid)"
  by (simp_all add: keeps_quality_def run_defs User_save_def Let_def)

lemma keeps_conversation [keeps]:
  "keeps_quality conversation_enter" "keeps_quality conversation_exit"
  "keeps_quality (imageConversation_resume e prompt)"
  by (simp_all add: keeps_quality_def dialog_defs run_defs)

lemma keeps_edit_callback_message [keeps]: "keeps_quality (edit_callback_message e l cbmsg t)"
  by (auto simp: edit_callback_message_def intro!: keeps split: option.splits)

lemma keeps_callbackQuery_model: "keeps_quality (callbackQuery_model cfg e sender d cbmsg)"
  unfolding callbackQuery_model_def by (auto intro!: keeps split: option.splits)

lemma keeps_cancel: "keeps_quality (callbackQuery_cancelImageGeneration e cbmsg)"
  unfolding callbackQuery_cancelImageGeneration_def by (auto intro!: keeps)

lemma keeps_invalid_quality:
  "quality_of d = None \<Longrightarrow> keeps_quality (callbackQuery_quality e d cbmsg)"
  unfolding callbackQuery_quality_def isValidImageGenerationQuality_def by (auto intro!: keeps)

lemma keeps_command_start: "keeps_quality (command_start cfg e sender)"
  unfolding command_start_def by (auto intro!: keeps split: option.splits)

lemma keeps_command_help: "keeps_quality (command_help e)"
  unfolding command_help_def by (auto intro!: keeps)

lemma keeps_command_newchat: "keeps_quality (command_newchat e sender)"
  unfolding command_newchat_def by (auto intro!: keeps split: option.splits)

lemma keeps_command_image: "keeps_quality (command_image cfg e)"
  unfolding command_image_def by (auto intro!: keeps)

lemma keeps_resolve_chatId: "keeps_quality (resolve_chatId e rm user)"
proof -
  have "keeps_quality (and_then (await e 235 (Chat_findLatest (user_oid user)))
            (\<lambda>latestChat. case latestChat of
                 Some c \<Rightarrow> and_then (set_chatId (chat_oid c)) (\<lambda>_. return (Some (Some c, chat_oid c)))
               | None \<Rightarrow> and_then (await e 243 (editText rm PLEASE_START))
                           (\<lambda>_. return None)))"
    by (auto intro!: keeps split: option.splits)
  then show ?thesis
    by (auto simp: keeps_quality_def resolve_chatId_def return_def split: option.splits)
qed

lemma keeps_exchange: "keeps_quality (exchange cfg e tid utext rm user chat)"
  unfolding exchange_def by (auto intro!: keeps)

lemma keeps_on_message_text: "keeps_quality (on_message_text cfg e sender utext)"
  unfolding on_message_text_def message_body_def
  by (auto intro!: keeps keeps_resolve_chatId keeps_exchange split: option.splits prod.splits)

lemma keeps_bot_catch: "keeps_quality (bot_catch e)"
  unfolding bot_catch_def by (auto intro!: keeps)

lemmas keeps_handlers = keeps_callbackQuery_model keeps_cancel keeps_invalid_quality
  keeps_command_start keeps_command_help keeps_command_newchat keeps_command_image
  keeps_on_message_text

lemma keeps_middleware:
  "not_quality_selection cfg p \<Longrightarrow> keeps_quality (middleware cfg ext e sender p)"
proof (cases p)
  case (CallbackQuery d cbmsg)
  assume "not_quality_selection cfg p"
  with CallbackQuery have "d \<in> set (map fst (AiModelsLabels cfg)) \<or> quality_of d = None"
    by (simp add: not_quality_selection_def)
  then have "keeps_quality (route cfg ext e sender (CallbackQuery d cbmsg))"
    by (auto simp: route_def simp del: set_map intro!: keeps keeps_handlers)
  with CallbackQuery show ?thesis
    by (simp add: middleware_def keeps_quality_def)
next
  case (Command c t)
  assume "not_quality_selection cfg p"
  with Command have "keeps_quality (route cfg ext e sender p)"
    by (auto simp: route_def not_quality_selection_def intro!: keeps keeps_handlers)
  with Command show ?thesis
    by (simp add: middleware_def keeps_quality_def)
next
  case (Text t)
  have "keeps_quality (route cfg ext e sender (Text t))"
    by (auto simp: route_def intro!: keeps_handlers)
  with Text keeps_conversation(3)[of e t] show ?thesis
    by (simp add: middleware_def keeps_quality_def)
qed

lemma handle_update_keeps_quality:
  assumes "not_quality_selection cfg p"
  shows "imageQuality (session (handle_update cfg ext e sender p w)) = imageQuality (session w)"
proof -
  obtain r w' where m: "middleware cfg ext e sender p w = (r, w')"
    by (cases "middleware cfg ext e sender p w")
  have "imageQuality (session w') = imageQuality (session w)"
    using keeps_middleware[OF assms, of ext e sender] m
    by (auto simp: keeps_quality_def dest: spec[where x=w])
  moreover have "imageQuality (session (snd (bot_catch e v))) = imageQuality (session v)" for v
    using keeps_bot_catch[of e] by (simp add: keeps_quality_def)
  ultimately show ?thesis
    by (cases r) (simp_all add: handle_update_def m)
qed

text \<open>
  C10. The image quality of a new session is \<open>STANDARD\<close>. The cancel callback leaves
  the session as it is, whatever its calls do. Handling any update whose handler is in
  \<^verbatim>\<open>bot.ts\<close>, the quality callback apart, leaves the image quality of the session as it
  is. So when a quality is chosen, the generation is cancelled, \<^verbatim>\<open>/image\<close> is sent
  (with the choice of quality switched off) and then a prompt, and the calls of the
  quality callback (lines 110, 119, 121) and of \<^verbatim>\<open>/image\<close> (line 193) do not reject, the
  session still holds the chosen quality after the cancellation and the image API is
  asked once, with the prompt and that quality.
\<close>

theorem quality_survives_cancel:
  fixes cfg ext e sender d cbmsg cbmsg' prompt w
  defines "w1 \<equiv> handle_update cfg ext e sender (CallbackQuery d cbmsg) w"
  defines "w2 \<equiv> handle_update cfg ext e sender (CallbackQuery ''cancelImageGeneration'' cbmsg') w1"
  defines "w3 \<equiv> handle_update cfg ext e sender (Command ''image'' ''/image'') w2"
  defines "w4 \<equiv> handle_update cfg ext e sender (Text prompt) w3"
  shows "imageQuality initial = STANDARD
       \<and> session (snd (callbackQuery_cancelImageGeneration e cbmsg v)) = session v
       \<and> (not_quality_selection cfg p \<longrightarrow>
            imageQuality (session (handle_update cfg ext e sender p v)) = imageQuality (session v))
       \<and> ((\<forall>l \<in> set [110, 119, 121, 193]. \<not> throws e l)
            \<and> quality_of d = Some q
            \<and> d \<notin> set (map fst (AiModelsLabels cfg))
            \<and> ''cancelImageGeneration'' \<notin> set (map fst (AiModelsLabels cfg))
            \<and> unset (IMAGE_QUALITY_CHANGE_AVAILABLE cfg) \<longrightarrow>
            imageQuality (session w1) = q \<and> imageQuality (session w2) = q
            \<and> filter image_request (emitted w3 w4) = [ImageRequest prompt q])"
proof (intro conjI impI)
  show "imageQuality initial = STANDARD"
    by (simp add: initial_def)
  show "session (snd (callbackQuery_cancelImageGeneration e cbmsg v)) = session v"
    unfolding callbackQuery_cancelImageGeneration_def
    by (auto simp: run_defs dialog_defs split: option.splits)
  show "imageQuality (session (handle_update cfg ext e sender p v)) = imageQuality (session v)"
    if "not_quality_selection cfg p"
    using that by (rule handle_update_keeps_quality)
next
  assume a: "(\<forall>l \<in> set [110, 119, 121, 193]. \<not> throws e l)
            \<and> quality_of d = Some q
            \<and> d \<notin> set (map fst (AiModelsLabels cfg))
            \<and> ''cancelImageGeneration'' \<notin> set (map fst (AiModelsLabels cfg))
            \<and> unset (IMAGE_QUALITY_CHANGE_AVAILABLE cfg)"
  show q1: "imageQuality (session w1) = q"
    using a quality_of_data[of d q] unfolding w1_def dispatch_defs callbackQuery_quality_def isValidImageGenerationQuality_def
    by (auto simp: run_defs dialog_defs split: option.splits)
  have "not_quality_selection cfg (CallbackQuery ''cancelImageGeneration'' cbmsg')"
    by (simp add: not_quality_selection_def quality_of_def)
  then show q2: "imageQuality (session w2) = q"
    unfolding w2_def using q1 by (simp add: handle_update_keeps_quality)
  have "not_quality_selection cfg (Command ''image'' ''/image'')"
    by (simp add: not_quality_selection_def)
  then have q3: "imageQuality (session w3) = q"
    unfolding w3_def using q2 by (simp add: handle_update_keeps_quality)
  have "awaiting_prompt w3"
    using a unfolding w3_def dispatch_defs command_image_def
    by (auto simp: run_defs dialog_defs split: option.splits)
  then show "filter image_request (emitted w3 w4) = [ImageRequest prompt q]"
    using q3 unfolding w4_def dispatch_defs
    by (auto simp: run_defs dialog_defs split: option.splits)
qed

theorem quality_survives_cancel_witness:
  "imageQuality (session
     (handle_update cfg0 no_commands calm alice (CallbackQuery ''cancelImageGeneration'' (Some 2))
       (handle_update cfg0 no_commands calm alice (CallbackQuery ''hd'' (Some 2)) fresh))) = HD
   \<and> filter image_request
       (emitted
         (handle_update cfg0 no_commands calm alice (Command ''image'' ''/image'')
           (handle_update cfg0 no_commands calm alice (CallbackQuery ''cancelImageGeneration'' (Some 2))
             (handle_update cfg0 no_commands calm alice (CallbackQuery ''hd'' (Some 2)) fresh)))
         (handle_update cfg0 no_commands calm alice (Text ''a cat'')
           (handle_update cfg0 no_commands calm alice (Command ''image'' ''/image'')
             (handle_update cfg0 no_commands calm alice (CallbackQuery ''cancelImageGeneration'' (Some 2))
               (handle_update cfg0 no_commands calm alice (CallbackQuery ''hd'' (Some 2)) fresh)))))
     = [ImageRequest ''a cat'' HD]
   \<and> imageQuality (session (handle_update cfg0 no_commands calm alice (Text ''hello'') settled))
     = imageQuality (session settled)"
proof -
  have q: "quality_of ''hd'' = Some HD"
    by (simp add: quality_of_def)
  have k: "''hd'' \<notin> set (map fst (AiModelsLabels cfg0))"
    "''cancelImageGeneration'' \<notin> set (map fst (AiModelsLabels cfg0))"
    by (simp_all add: cfg0_def)
  have u: "unset (IMAGE_QUALITY_CHANGE_AVAILABLE cfg0)"
    by (simp add: cfg0_def unset_def)
  have t: "\<forall>l \<in> set [110, 119, 121, 193]. \<not> throws calm l"
    by (simp add: calm_def)
  have n: "not_quality_selection cfg0 (Text ''hello'')"
    by (simp add: not_quality_selection_def)
  show ?thesis
    using quality_survives_cancel[where cfg=cfg0 and ext=no_commands and e=calm and sender=alice
        and d="''hd''" and q=HD and cbmsg="Some 2" and cbmsg'="Some 2" and prompt="''a cat''"
        and w=fresh and p="Text ''hello''" and v=settled]
      q k u t n
    by simp
qed

end
